theory Spec2Isabelle
  imports Complex_Main
begin

section \<open>JavaScript values\<close>

text \<open>
  The server of \<^verbatim>\<open>App.js\<close> (the part from \<^verbatim>\<open>const app = express()\<close> on) passes JSON
  values between the request layer, the Supabase tables and the external providers.
  A number is a double: a finite one is given by its real value, beside \<open>NaN\<close> and the
  two infinities. The one place where the server computes with doubles, the mock score,
  is modelled with the rounding of the product (see \<open>mock_score\<close>). Strings are lists of
  8-bit characters; an object is the list of its properties in the order in which they were
  written.
\<close>

datatype jsnum = NaN | PosInf | NegInf | Num real

datatype json =
    JNull
  | JBool bool
  | JNum jsnum
  | JStr string
  | JArr "json list"
  | JObj "(string \<times> json) list"

text \<open>The test \<^verbatim>\<open>if (v)\<close>: \<^verbatim>\<open>null\<close>, \<^verbatim>\<open>false\<close>, \<^verbatim>\<open>0\<close>, \<^verbatim>\<open>NaN\<close> and \<^verbatim>\<open>""\<close> are falsy,
  every array and object is truthy.\<close>

fun truthy :: "json \<Rightarrow> bool" where
  "truthy JNull = False"
| "truthy (JBool b) = b"
| "truthy (JNum NaN) = False"
| "truthy (JNum PosInf) = True"
| "truthy (JNum NegInf) = True"
| "truthy (JNum (Num r)) = (r \<noteq> 0)"
| "truthy (JStr s) = (s \<noteq> [])"
| "truthy (JArr xs) = True"
| "truthy (JObj kvs) = True"

text \<open>The property read \<^verbatim>\<open>v.k\<close> on a truthy value, for the keys the server reads
  (\<^verbatim>\<open>lat\<close>, \<^verbatim>\<open>lng\<close>, \<^verbatim>\<open>status\<close>): \<open>None\<close> is \<^verbatim>\<open>undefined\<close>. Only an object has
  such a property.\<close>

fun get_field :: "json \<Rightarrow> string \<Rightarrow> json option" where
  "get_field (JObj kvs) k = map_of kvs k"
| "get_field v k = None"

text \<open>What a value is after it was sent as JSON (the Supabase client serialises the row
  with \<^verbatim>\<open>JSON.stringify\<close>): \<open>NaN\<close> and the infinities become \<^verbatim>\<open>null\<close>, at any depth; every
  other value is kept.\<close>

primrec as_json :: "json \<Rightarrow> json" where
  "as_json JNull = JNull"
| "as_json (JBool b) = JBool b"
| "as_json (JNum n) = (case n of Num r \<Rightarrow> JNum (Num r) | _ \<Rightarrow> JNull)"
| "as_json (JStr str) = JStr str"
| "as_json (JArr xs) = JArr (map as_json xs)"
| "as_json (JObj kvs) = JObj (map (map_prod id as_json) kvs)"


text \<open>\<^verbatim>\<open>String.prototype.trim\<close>: white space and line terminators are removed at both
  ends. Among 8-bit characters these are TAB, LF, VT, FF, CR, SP and NBSP.\<close>

definition is_space :: "char \<Rightarrow> bool" where
  "is_space c = (of_char c \<in> {9, 10, 11, 12, 13, 32, 160 :: nat})"

definition trim :: "string \<Rightarrow> string" where
  "trim s = rev (dropWhile is_space (rev (dropWhile is_space s)))"

section \<open>Tables, effects and the outside world\<close>

text \<open>Times are milliseconds since the epoch. A \<^verbatim>\<open>Date\<close> holds a time value of at most
  8.64e15 in absolute value; \<^verbatim>\<open>new Date(t)\<close> beyond that is an invalid date (\<open>None\<close>),
  which JSON serialises as \<^verbatim>\<open>null\<close>. Read back, \<^verbatim>\<open>new Date(null)\<close> is the epoch.\<close>

definition new_Date :: "int \<Rightarrow> int option" where
  "new_Date t = (if \<bar>t\<bar> \<le> 8640000000000000 then Some t else None)"

definition date_of_column :: "int option \<Rightarrow> int" where
  "date_of_column c = (case c of None \<Rightarrow> 0 | Some t \<Rightarrow> t)"

text \<open>A row of the \<^verbatim>\<open>cache\<close> table; \<^verbatim>\<open>key\<close> is its primary key, so the table is a map
  from keys to rows. The column \<^verbatim>\<open>expires_at\<close> is taken to accept \<^verbatim>\<open>null\<close>.\<close>

record cache_row =
  value_col :: json
  expires_at :: "int option"

record report =
  report_id :: nat
  report_disaster_id :: string
  user_id :: string
  content :: string
  image_url :: "string option"
  verification_status :: json

record resource =
  resource_id :: nat
  resource_disaster_id :: string
  resource_name :: string

text \<open>The well-known text \<^verbatim>\<open>POINT(${coords.lng} ${coords.lat})\<close>, kept as the two
  interpolated values (longitude first).\<close>

datatype wkt = POINT "json option" "json option"

record audit_entry =
  action :: string
  audit_user_id :: string
  timestamp :: int

record disaster =
  title :: string
  location_name :: "string option"
  location :: "wkt option"
  description :: string
  tags :: "string list"
  owner_id :: string
  audit_trail :: "audit_entry list"

text \<open>What \<^verbatim>\<open>io.emit\<close> sends: the event name, and the payload's \<^verbatim>\<open>action\<close> and
  \<^verbatim>\<open>disaster\<close> fields.\<close>

datatype event = Event string string disaster

text \<open>The effects of a request, in the order in which the handler performs them.\<close>

datatype effect =
    NominatimGet string
  | GeminiPost string
  | GenerateContent string
  | CacheUpsert string json "int option"
  | DisastersInsert disaster
  | Emit event

record world =
  cache :: "string \<rightharpoonup> cache_row"
  reports :: "report list"
  resources :: "resource list"
  trace :: "effect list"

text \<open>The answers of the collaborators that are not part of the repository. A call that
  throws (a transport error, a non-2xx status, a response of an unexpected shape) is
  \<open>Raises\<close>.\<close>

record nominatim_match =
  lat :: string
  lon :: string

datatype nominatim_outcome = NominatimRaises | NominatimData "nominatim_match list"

datatype part = Part (part_text: "string option")
datatype content_obj = Content (parts: "part list option")
datatype candidate = Candidate (content_of: "content_obj option")
datatype gemini_outcome = GeminiRaises | GeminiData (candidates: "candidate list option")

datatype sdk_outcome = SdkRaises | SdkText string

text \<open>A double in \<open>[0, 1)\<close>, as \<^verbatim>\<open>Math.random()\<close> returns it: \<open>mant / 2 ^ nexp\<close> with a
  significand of at most 53 bits and an exponent down to that of the smallest subnormal.
  Every double of that interval has this form.\<close>

record unit_double =
  mant :: nat
  nexp :: nat

definition is_unit_double :: "unit_double \<Rightarrow> bool" where
  "is_unit_double d = (mant d < 2 ^ 53 \<and> nexp d \<le> 1074 \<and> mant d < 2 ^ nexp d)"

definition double_val :: "unit_double \<Rightarrow> real" where
  "double_val d = real (mant d) / 2 ^ nexp d"

text \<open>The environment of one request: the clock (a time value), the providers (each a function of what
  is sent to it), \<^verbatim>\<open>Math.random()\<close>, the built-in number parsers and string coercion, and
  the answers of the persistence collaborator where the handler looks at its \<^verbatim>\<open>error\<close>.
  The \<^verbatim>\<open>cache\<close> and \<^verbatim>\<open>reports\<close> tables, whose \<^verbatim>\<open>error\<close> the server never reads, are
  modelled as tables that carry out what is asked.\<close>

record env =
  now :: int
  nominatim :: "string \<Rightarrow> nominatim_outcome"
  gemini_post :: "string \<Rightarrow> gemini_outcome"
  generateContent :: "string \<Rightarrow> sdk_outcome"
  math_random :: unit_double
  parseFloat :: "string \<Rightarrow> jsnum"
  parseInt :: "string \<Rightarrow> jsnum"
  js_String :: "json \<Rightarrow> string"
  disasters_insert :: "disaster \<Rightarrow> string + disaster"
  resources_select_error :: "string option"
  get_nearby_resources :: "string \<Rightarrow> jsnum \<Rightarrow> jsnum \<Rightarrow> jsnum \<Rightarrow> string + resource list"

datatype 'a response = Json 'a | Error nat string

section \<open>Cache helper functions\<close>

definition getCache :: "env \<Rightarrow> string \<Rightarrow> world \<Rightarrow> json" where
  "getCache e key s =
     (case cache s key of
        None \<Rightarrow> JNull
      | Some data \<Rightarrow>
          if now e < date_of_column (expires_at data) then value_col data else JNull)"

text \<open>\<^verbatim>\<open>ttlMinutes\<close> is a whole number of minutes. The sum \<^verbatim>\<open>Date.now() + ttlMinutes * 60 * 1000\<close>
  is computed in doubles; it is exact whenever it is in the range of dates, and out of that
  range in doubles whenever the exact sum is. The row goes to the table as JSON.\<close>

definition setCache :: "env \<Rightarrow> string \<Rightarrow> json \<Rightarrow> int \<Rightarrow> world \<Rightarrow> world" where
  "setCache e key v ttlMinutes s =
     (let expiresAt = new_Date (now e + ttlMinutes * 60 * 1000)
      in s\<lparr>cache := (cache s)(key \<mapsto> \<lparr>value_col = as_json v, expires_at = expiresAt\<rparr>),
            trace := trace s @ [CacheUpsert key (as_json v) expiresAt]\<rparr>)"

text \<open>The default of \<^verbatim>\<open>ttlMinutes\<close>; every caller uses it.\<close>

definition default_ttl :: int where
  "default_ttl = 60"

section \<open>Geocoder, Location Extractor, Image Verifier\<close>

definition geocodeLocation :: "env \<Rightarrow> string \<Rightarrow> world \<Rightarrow> json \<times> world" where
  "geocodeLocation e locationName s =
     (let cacheKey = ''geocode_'' @ locationName;
          cached = getCache e cacheKey s
      in if truthy cached then (cached, s)
         else
           (let s1 = s\<lparr>trace := trace s @ [NominatimGet locationName]\<rparr>
            in case nominatim e locationName of
                 NominatimRaises \<Rightarrow> (JNull, s1)
               | NominatimData matches \<Rightarrow>
                   (case matches of
                      [] \<Rightarrow> (JNull, s1)
                    | result # rest \<Rightarrow>
                        (let coords = JObj [(''lat'', JNum (parseFloat e (lat result))),
                                            (''lng'', JNum (parseFloat e (lon result)))]
                         in (coords, setCache e cacheKey coords default_ttl s1)))))"

definition extract_prompt :: "string \<Rightarrow> string" where
  "extract_prompt txt =
     ''Extract the most specific location name from this text. Return only the location name (city, state/country format preferred): ''
     @ [CHR 0x22] @ txt @ [CHR 0x22]"

text \<open>\<^verbatim>\<open>response.data.candidates?.[0]?.content?.parts?.[0]?.text?.trim()\<close>\<close>

definition first_elem :: "'a list \<Rightarrow> 'a option" where
  "first_elem xs = (case xs of [] \<Rightarrow> None | x # rest \<Rightarrow> Some x)"

definition candidate_text :: "candidate list option \<Rightarrow> string option" where
  "candidate_text cs =
     Option.bind (Option.bind (Option.bind (Option.bind (Option.bind (Option.bind cs
       first_elem) content_of) parts) first_elem) part_text) (\<lambda>t. Some (trim t))"

definition extractLocationWithGemini :: "env \<Rightarrow> string \<Rightarrow> world \<Rightarrow> json \<times> world" where
  "extractLocationWithGemini e txt s =
     (let cacheKey = ''extract_location_'' @ txt;
          cached = getCache e cacheKey s
      in if truthy cached then (cached, s)
         else
           (let s1 = s\<lparr>trace := trace s @ [GeminiPost (extract_prompt txt)]\<rparr>
            in case gemini_post e (extract_prompt txt) of
                 GeminiRaises \<Rightarrow> (JNull, s1)
               | GeminiData cs \<Rightarrow>
                   (case candidate_text cs of
                      None \<Rightarrow> (JNull, s1)
                    | Some locationName \<Rightarrow>
                        if locationName \<noteq> []
                        then (JStr locationName, setCache e cacheKey (JStr locationName) default_ttl s1)
                        else (JNull, s1))))"

definition verify_prompt :: "string \<Rightarrow> string" where
  "verify_prompt imageUrl =
     ''Analyze this disaster-related image for authenticity and context. Rate from 1-10 (10 being most authentic) and provide brief reasoning: ''
     @ imageUrl"

definition degraded :: json where
  "degraded = JObj [(''score'', JNum (Num 5)), (''reasoning'', JStr ''Unable to verify''),
                    (''status'', JStr ''pending'')]"

text \<open>\<^verbatim>\<open>Math.floor(Math.random() * 3) + 7\<close>. The product is a double: the exact product
  \<open>mant * 3 / 2 ^ nexp\<close> rounded to 53 significant bits, to the nearest, a tie to the even
  significand. The product of a significand of 53 bits with 3 has at most 55 bits, so that
  at most two bits are rounded away; \<open>product_3\<close> is the numerator of the rounded product
  over the denominator \<open>2 ^ nexp\<close>. The floor and the sum with 7 are exact.\<close>

definition round_half_even :: "nat \<Rightarrow> nat \<Rightarrow> nat" where
  "round_half_even p k =
     (let q = p div 2 ^ k; r = p mod 2 ^ k
      in if 2 * r < 2 ^ k then q
         else if 2 ^ k < 2 * r then q + 1
         else if even q then q else q + 1)"

text \<open>\<open>round_53 p\<close> is \<open>p\<close> rounded to 53 significant bits, for \<open>p\<close> below \<open>2 ^ 55\<close>.\<close>

definition round_53 :: "nat \<Rightarrow> nat" where
  "round_53 p =
     (let k = (if p < 2 ^ 53 then 0 else if p < 2 ^ 54 then 1 else 2)
      in round_half_even p k * 2 ^ k)"

definition product_3 :: "unit_double \<Rightarrow> nat" where
  "product_3 d = round_53 (mant d * 3)"

definition mock_score :: "unit_double \<Rightarrow> int" where
  "mock_score d = int (product_3 d div 2 ^ nexp d) + 7"

definition verifyImageWithGemini :: "env \<Rightarrow> string \<Rightarrow> world \<Rightarrow> json \<times> world" where
  "verifyImageWithGemini e imageUrl s =
     (let cacheKey = ''verify_image_'' @ imageUrl;
          cached = getCache e cacheKey s
      in if truthy cached then (cached, s)
         else
           (let s1 = s\<lparr>trace := trace s @ [GenerateContent (verify_prompt imageUrl)]\<rparr>
            in case generateContent e (verify_prompt imageUrl) of
                 SdkText t \<Rightarrow>
                   (let verification =
                          JObj [(''score'', JNum (Num (of_int (mock_score (math_random e))))),
                                (''reasoning'', JStr (trim t)),
                                (''status'', JStr ''verified'')]
                    in (verification, setCache e cacheKey verification default_ttl s1))
               | SdkRaises \<Rightarrow> (degraded, s1)))"

section \<open>Request handlers\<close>

text \<open>The request bodies and query strings carry strings in the fields the handlers read;
  a field may be absent (\<open>None\<close>). A value returned by \<^verbatim>\<open>extractLocationWithGemini\<close> is
  interpolated into the geocoder's cache key: a string as it is, anything else (which only
  a row of the cache table written by another program can give) through its coercion to a
  string.\<close>

definition template_str :: "env \<Rightarrow> json \<Rightarrow> string" where
  "template_str e v = (case v of JStr str \<Rightarrow> str | _ \<Rightarrow> js_String e v)"

text \<open>\<^verbatim>\<open>app.post('/geocode')\<close>. Nothing in the bodies of the handlers throws in this
  model except where an \<^verbatim>\<open>error\<close> is rethrown, so the \<^verbatim>\<open>catch\<close> branches with status 500
  appear only there.\<close>

definition post_geocode :: "env \<Rightarrow> string \<Rightarrow> world \<Rightarrow> json response \<times> world" where
  "post_geocode e txt s =
     (case extractLocationWithGemini e txt s of
        (locationName, s1) \<Rightarrow>
          if \<not> truthy locationName then (Error 400 ''Could not extract location'', s1)
          else
            (case geocodeLocation e (template_str e locationName) s1 of
               (coords, s2) \<Rightarrow>
                 if \<not> truthy coords then (Error 400 ''Could not geocode location'', s2)
                 else (Json (JObj [(''locationName'', locationName), (''coordinates'', coords)]),
                       s2)))"

text \<open>\<^verbatim>\<open>app.post('/disasters')\<close>. The first helper is the block that computes
  \<^verbatim>\<open>location\<close>, the second the object handed to \<^verbatim>\<open>insert\<close>.\<close>

record disaster_body =
  body_title :: string
  body_location_name :: "string option"
  body_description :: string
  body_tags :: "string list"
  body_owner_id :: "string option"

definition locate :: "env \<Rightarrow> disaster_body \<Rightarrow> world \<Rightarrow> wkt option \<times> world" where
  "locate e body s =
     (case body_location_name body of
        None \<Rightarrow> (None, s)
      | Some name \<Rightarrow>
          if name = [] then (None, s)
          else
            (case geocodeLocation e name s of
               (coords, s1) \<Rightarrow>
                 if truthy coords
                 then (Some (POINT (get_field coords ''lng'') (get_field coords ''lat'')), s1)
                 else (None, s1)))"

definition insert_row :: "env \<Rightarrow> disaster_body \<Rightarrow> wkt option \<Rightarrow> disaster" where
  "insert_row e body loc =
     (let owner = (case body_owner_id body of None \<Rightarrow> ''netrunnerX'' | Some u \<Rightarrow> u)
      in \<lparr>title = body_title body,
          location_name = body_location_name body,
          location = loc,
          description = body_description body,
          tags = body_tags body,
          owner_id = owner,
          audit_trail = [\<lparr>action = ''create'', audit_user_id = owner, timestamp = now e\<rparr>]\<rparr>)"

definition post_disasters :: "env \<Rightarrow> disaster_body \<Rightarrow> world \<Rightarrow> disaster response \<times> world" where
  "post_disasters e body s =
     (case locate e body s of
        (loc, s1) \<Rightarrow>
          (let row = insert_row e body loc;
               s2 = s1\<lparr>trace := trace s1 @ [DisastersInsert row]\<rparr>
           in case disasters_insert e row of
                Inl err \<Rightarrow> (Error 500 ''Failed to create disaster'', s2)
              | Inr data \<Rightarrow>
                  (Json data,
                   s2\<lparr>trace := trace s2 @ [Emit (Event ''disaster_updated'' ''create'' data)]\<rparr>)))"

text \<open>\<^verbatim>\<open>app.get('/disasters/:id/resources')\<close>. \<open>resources_query\<close> is the awaited
  \<^verbatim>\<open>query\<close>: the rows of \<^verbatim>\<open>resources\<close> whose \<^verbatim>\<open>disaster_id\<close> is the incident's, or an
  error of the persistence collaborator.\<close>

definition resources_query :: "env \<Rightarrow> string \<Rightarrow> world \<Rightarrow> string + resource list" where
  "resources_query e did s =
     (case resources_select_error e of
        Some err \<Rightarrow> Inl err
      | None \<Rightarrow> Inr (filter (\<lambda>r. resource_disaster_id r = did) (resources s)))"

definition plain_mode :: "env \<Rightarrow> string \<Rightarrow> world \<Rightarrow> resource list response" where
  "plain_mode e did s =
     (case resources_query e did s of
        Inl err \<Rightarrow> Error 500 ''Failed to fetch resources''
      | Inr data \<Rightarrow> Json data)"

definition radius_meters :: "env \<Rightarrow> string option \<Rightarrow> jsnum" where
  "radius_meters e radius = (case radius of None \<Rightarrow> Num 10000 | Some r \<Rightarrow> parseInt e r)"

definition get_resources ::
  "env \<Rightarrow> string \<Rightarrow> string option \<Rightarrow> string option \<Rightarrow> string option \<Rightarrow> world
     \<Rightarrow> resource list response" where
  "get_resources e did qlat qlng radius s =
     (case qlat of
        None \<Rightarrow> plain_mode e did s
      | Some user_lat \<Rightarrow>
          (case qlng of
             None \<Rightarrow> plain_mode e did s
           | Some user_lng \<Rightarrow>
               if user_lat \<noteq> [] \<and> user_lng \<noteq> [] then
                 (case get_nearby_resources e did (parseFloat e user_lat) (parseFloat e user_lng)
                         (radius_meters e radius) of
                    Inl err \<Rightarrow>
                      (case resources_query e did s of
                         Inl fallbackError \<Rightarrow> Error 500 ''Failed to fetch resources''
                       | Inr fallbackData \<Rightarrow> Json fallbackData)
                  | Inr data \<Rightarrow> Json data)
               else plain_mode e did s))"

text \<open>\<^verbatim>\<open>app.post('/disasters/:id/verify-image')\<close>. The update of \<^verbatim>\<open>reports\<close> is filtered
  by \<^verbatim>\<open>image_url\<close> alone; a payload whose only field is \<^verbatim>\<open>undefined\<close> is serialised as
  the empty object and sets no column.\<close>

definition update_verification_status :: "json option \<Rightarrow> string \<Rightarrow> report list \<Rightarrow> report list" where
  "update_verification_status st url rs =
     (case st of
        None \<Rightarrow> rs
      | Some v \<Rightarrow> map (\<lambda>r. if image_url r = Some url then r\<lparr>verification_status := v\<rparr> else r) rs)"

definition post_verify_image :: "env \<Rightarrow> string \<Rightarrow> string \<Rightarrow> world \<Rightarrow> json response \<times> world" where
  "post_verify_image e did url s =
     (case verifyImageWithGemini e url s of
        (verification, s1) \<Rightarrow>
          (Json verification,
           s1\<lparr>reports := update_verification_status (get_field verification ''status'') url
                            (reports s1)\<rparr>))"

section \<open>Reading a trace\<close>

fun is_provider_call :: "effect \<Rightarrow> bool" where
  "is_provider_call (NominatimGet q) = True"
| "is_provider_call (GeminiPost p) = True"
| "is_provider_call (GenerateContent p) = True"
| "is_provider_call x = False"

fun is_nominatim_call :: "effect \<Rightarrow> bool" where
  "is_nominatim_call (NominatimGet q) = True"
| "is_nominatim_call x = False"

fun is_cache_write :: "effect \<Rightarrow> bool" where
  "is_cache_write (CacheUpsert k v t) = True"
| "is_cache_write x = False"

fun is_emit :: "effect \<Rightarrow> bool" where
  "is_emit (Emit ev) = True"
| "is_emit x = False"

definition count_effects :: "(effect \<Rightarrow> bool) \<Rightarrow> effect list \<Rightarrow> nat" where
  "count_effects P tr = length (filter P tr)"

section \<open>Sample inputs\<close>

definition sample_parseFloat :: "string \<Rightarrow> jsnum" where
  "sample_parseFloat str =
     (if str = ''40.7831'' then Num (407831 / 10000)
      else if str = ''-73.9712'' then Num (- 739712 / 10000)
      else NaN)"

definition sample_env :: env where
  "sample_env = \<lparr>now = 0,
     nominatim = (\<lambda>q. NominatimData [\<lparr>lat = ''40.7831'', lon = ''-73.9712''\<rparr>]),
     gemini_post = (\<lambda>p. GeminiData (Some [Candidate (Some (Content (Some [Part (Some '' Manhattan, NYC '')])))])),
     generateContent = (\<lambda>p. SdkText ''Score 3: looks edited ''),
     math_random = \<lparr>mant = 1, nexp = 1\<rparr>,
     parseFloat = sample_parseFloat,
     parseInt = (\<lambda>str. NaN),
     js_String = (\<lambda>v. ''[object Object]''),
     disasters_insert = (\<lambda>row. Inr row),
     resources_select_error = None,
     get_nearby_resources = (\<lambda>did la lo r. Inr [])\<rparr>"

definition failing_env :: env where
  "failing_env = sample_env\<lparr>nominatim := (\<lambda>q. NominatimRaises),
     gemini_post := (\<lambda>p. GeminiRaises),
     generateContent := (\<lambda>p. SdkRaises),
     disasters_insert := (\<lambda>row. Inl ''insert failed''),
     get_nearby_resources := (\<lambda>did la lo r. Inl ''function not found'')\<rparr>"

definition sample_report :: report where
  "sample_report = \<lparr>report_id = 1, report_disaster_id = ''d1'', user_id = ''citizen1'',
     content = ''Water rising'', image_url = Some ''http://img/1.jpg'',
     verification_status = JStr ''pending''\<rparr>"

definition sample_world :: world where
  "sample_world = \<lparr>cache = Map.empty,
     reports = [sample_report,
                sample_report\<lparr>report_id := 2, report_disaster_id := ''d2''\<rparr>,
                sample_report\<lparr>report_id := 3, image_url := Some ''http://img/2.jpg''\<rparr>,
                sample_report\<lparr>report_id := 4, image_url := None\<rparr>],
     resources = [\<lparr>resource_id = 1, resource_disaster_id = ''d1'', resource_name = ''Shelter''\<rparr>,
                  \<lparr>resource_id = 2, resource_disaster_id = ''d2'', resource_name = ''Clinic''\<rparr>],
     trace = []\<rparr>"

definition sample_coords :: json where
  "sample_coords = JObj [(''lat'', JNum (Num (407831 / 10000))),
                         (''lng'', JNum (Num (- 739712 / 10000)))]"

definition primed_world :: world where
  "primed_world = sample_world\<lparr>cache :=
     [''geocode_Manhattan, NYC'' \<mapsto> \<lparr>value_col = sample_coords, expires_at = Some 3600000\<rparr>]\<rparr>"






definition two_thirds :: unit_double where
  "two_thirds = \<lparr>mant = 6004799503160661, nexp = 53\<rparr>"

definition one_third :: unit_double where
  "one_third = \<lparr>mant = 6004799503160661, nexp = 54\<rparr>"

definition one_third_env :: env where
  "one_third_env = sample_env\<lparr>math_random := one_third\<rparr>"

definition two_thirds_env :: env where
  "two_thirds_env = sample_env\<lparr>math_random := two_thirds\<rparr>"

definition later_env :: env where
  "later_env = sample_env\<lparr>now := 60000\<rparr>"

definition expired_env :: env where
  "expired_env = failing_env\<lparr>now := 3600001\<rparr>"

definition blank_env :: env where
  "blank_env = sample_env\<lparr>nominatim := (\<lambda>q. NominatimData []),
     gemini_post := (\<lambda>p. GeminiData (Some [Candidate (Some (Content (Some [Part (Some ''  '')])))]))\<rparr>"

definition sample_url :: string where
  "sample_url = ''http://img/1.jpg''"

definition after_failure :: world where
  "after_failure = snd (verifyImageWithGemini failing_env sample_url sample_world)"

definition verified_world :: world where
  "verified_world = snd (post_verify_image sample_env ''d1'' sample_url sample_world)"

definition sample_body :: disaster_body where
  "sample_body = \<lparr>body_title = ''NYC Flood'', body_location_name = Some ''Manhattan, NYC'',
     body_description = ''Heavy flooding'', body_tags = [''flood''], body_owner_id = None\<rparr>"

section \<open>Helper facts\<close>

lemma getCache_trace_update [simp]: "getCache e key (s\<lparr>trace := tr\<rparr>) = getCache e key s"
  by (simp add: getCache_def)

section \<open>TTL Cache Store\<close>





section \<open>Geocoder\<close>

text \<open>
  Claim C9. For every place name \<open>p\<close>: if the cache table holds a coordinates row for the
  key \<^verbatim>\<open>geocode_\<close>\<open>p\<close> that is unexpired at the time of both calls, then two successive
  calls of \<open>geocodeLocation\<close> on \<open>p\<close> return the same coordinates (those of the row), and
  neither call invokes the geocoding provider: the state, and so the trace of effects, is
  unchanged.
\<close>

theorem geocode_cache_hit:
  assumes "cache s (''geocode_'' @ p) = Some row"
    and "value_col row = JObj [(''lat'', JNum a), (''lng'', JNum b)]"
    and "now e1 < date_of_column (expires_at row)"
    and "now e2 < date_of_column (expires_at row)"
  shows "geocodeLocation e1 p s = (value_col row, s)
     \<and> geocodeLocation e2 p (snd (geocodeLocation e1 p s)) = (value_col row, s)
     \<and> count_effects is_provider_call
           (trace (snd (geocodeLocation e2 p (snd (geocodeLocation e1 p s)))))
         = count_effects is_provider_call (trace s)"
  using assms by (simp add: geocodeLocation_def getCache_def Let_def)

theorem geocode_cache_hit_witness:
  "cache primed_world (''geocode_'' @ ''Manhattan, NYC'')
     = Some \<lparr>value_col = sample_coords, expires_at = Some 3600000\<rparr>
   \<and> now failing_env < 3600000 \<and> now later_env < 3600000
   \<and> geocodeLocation failing_env ''Manhattan, NYC'' primed_world = (sample_coords, primed_world)
   \<and> geocodeLocation later_env ''Manhattan, NYC''
        (snd (geocodeLocation failing_env ''Manhattan, NYC'' primed_world))
       = (sample_coords, primed_world)"
proof -
  have row: "cache primed_world (''geocode_'' @ ''Manhattan, NYC'')
     = Some \<lparr>value_col = sample_coords, expires_at = Some 3600000\<rparr>"
    by (simp add: primed_world_def)
  have val: "value_col \<lparr>value_col = sample_coords, expires_at = Some 3600000\<rparr>
     = JObj [(''lat'', JNum (Num (407831 / 10000))), (''lng'', JNum (Num (- 739712 / 10000)))]"
    by (simp add: sample_coords_def)
  have t1': "now failing_env < 3600000"
    by (simp add: failing_env_def sample_env_def)
  have t2': "now later_env < 3600000"
    by (simp add: later_env_def)
  have t1: "now failing_env
      < date_of_column (expires_at \<lparr>value_col = sample_coords, expires_at = Some 3600000\<rparr>)"
    using t1' by (simp add: date_of_column_def)
  have t2: "now later_env
      < date_of_column (expires_at \<lparr>value_col = sample_coords, expires_at = Some 3600000\<rparr>)"
    using t2' by (simp add: date_of_column_def)
  note hit = geocode_cache_hit [OF row val t1 t2, unfolded cache_row.select_convs]
  from row t1' t2' hit show ?thesis by blast
qed

text \<open>
  Claim C4. For every place name: when the cache gives nothing and the geocoding provider
  returns zero matches, or the call to it throws, \<open>geocodeLocation\<close> returns \<^verbatim>\<open>null\<close> in
  both cases (the same result and the same state, so the caller cannot tell them apart),
  and no row of the cache table is written.
\<close>

theorem geocode_not_found:
  assumes "\<not> truthy (getCache e (''geocode_'' @ p) s)"
    and "nominatim e p = NominatimRaises \<or> nominatim e p = NominatimData []"
  shows "geocodeLocation e p s = (JNull, s\<lparr>trace := trace s @ [NominatimGet p]\<rparr>)
     \<and> cache (snd (geocodeLocation e p s)) = cache s
     \<and> count_effects is_cache_write (trace (snd (geocodeLocation e p s)))
         = count_effects is_cache_write (trace s)"
  using assms by (auto simp add: geocodeLocation_def Let_def count_effects_def)

theorem geocode_not_found_witness:
  "\<not> truthy (getCache failing_env (''geocode_'' @ ''Atlantis'') sample_world)
   \<and> nominatim failing_env ''Atlantis'' = NominatimRaises
   \<and> \<not> truthy (getCache blank_env (''geocode_'' @ ''Atlantis'') sample_world)
   \<and> nominatim blank_env ''Atlantis'' = NominatimData []
   \<and> geocodeLocation failing_env ''Atlantis'' sample_world
       = (JNull, sample_world\<lparr>trace := trace sample_world @ [NominatimGet ''Atlantis'']\<rparr>)
   \<and> geocodeLocation blank_env ''Atlantis'' sample_world
       = (JNull, sample_world\<lparr>trace := trace sample_world @ [NominatimGet ''Atlantis'']\<rparr>)"
proof -
  have m1: "\<not> truthy (getCache failing_env (''geocode_'' @ ''Atlantis'') sample_world)"
    by (simp add: getCache_def sample_world_def)
  have m2: "\<not> truthy (getCache blank_env (''geocode_'' @ ''Atlantis'') sample_world)"
    by (simp add: getCache_def sample_world_def)
  have p1: "nominatim failing_env ''Atlantis'' = NominatimRaises"
    by (simp add: failing_env_def)
  have p2: "nominatim blank_env ''Atlantis'' = NominatimData []"
    by (simp add: blank_env_def)
  from m1 m2 p1 p2
    geocode_not_found [of failing_env "''Atlantis''" sample_world]
    geocode_not_found [of blank_env "''Atlantis''" sample_world]
  show ?thesis by blast
qed

section \<open>Geocode Orchestrator\<close>

text \<open>
  Claim C3. For every text from which \<open>extractLocationWithGemini\<close> yields no location (a
  falsy result: the provider call threw, or the response had no text or only white space,
  and the cache gave nothing), the handler of \<^verbatim>\<open>POST /geocode\<close> answers with status 400;
  the geocoding stage does not run (no request to the geocoding provider is made), and no
  row of the cache table is written, neither for the extraction nor for the geocoding key:
  the only effect of the request is the call to the language-model provider.
\<close>

theorem no_location_short_circuits:
  assumes "\<not> truthy (fst (extractLocationWithGemini e txt s))"
  shows "fst (post_geocode e txt s) = Error 400 ''Could not extract location''
     \<and> cache (snd (post_geocode e txt s)) = cache s
     \<and> trace (snd (post_geocode e txt s)) = trace s @ [GeminiPost (extract_prompt txt)]
     \<and> count_effects is_nominatim_call (trace (snd (post_geocode e txt s)))
         = count_effects is_nominatim_call (trace s)
     \<and> count_effects is_cache_write (trace (snd (post_geocode e txt s)))
         = count_effects is_cache_write (trace s)"
  using assms
  by (auto simp add: post_geocode_def extractLocationWithGemini_def Let_def count_effects_def
      split: gemini_outcome.splits option.splits if_splits)

theorem no_location_short_circuits_witness:
  "\<not> truthy (fst (extractLocationWithGemini failing_env ''Help us'' sample_world))
   \<and> \<not> truthy (fst (extractLocationWithGemini blank_env ''Help us'' sample_world))
   \<and> fst (post_geocode failing_env ''Help us'' sample_world)
       = Error 400 ''Could not extract location''
   \<and> trace (snd (post_geocode failing_env ''Help us'' sample_world))
       = trace sample_world @ [GeminiPost (extract_prompt ''Help us'')]
   \<and> fst (post_geocode blank_env ''Help us'' sample_world)
       = Error 400 ''Could not extract location''
   \<and> cache (snd (post_geocode blank_env ''Help us'' sample_world)) = cache sample_world"
proof -
  have h1: "\<not> truthy (fst (extractLocationWithGemini failing_env ''Help us'' sample_world))"
    by (simp add: extractLocationWithGemini_def getCache_def sample_world_def failing_env_def)
  have h2: "\<not> truthy (fst (extractLocationWithGemini blank_env ''Help us'' sample_world))"
    by (simp add: extractLocationWithGemini_def getCache_def sample_world_def blank_env_def
        candidate_text_def first_elem_def trim_def is_space_def)
  from h1 h2 no_location_short_circuits [OF h1] no_location_short_circuits [OF h2]
  show ?thesis by blast
qed

section \<open>Image Verifier\<close>

lemma getCache_now: "now e' = now e \<Longrightarrow> getCache e' key s = getCache e key s"
  by (simp add: getCache_def cong: option.case_cong)

lemma verify_fail_result:
  assumes "\<not> truthy (getCache e (''verify_image_'' @ url) s)"
    and "generateContent e (verify_prompt url) = SdkRaises"
  shows "verifyImageWithGemini e url s
           = (degraded, s\<lparr>trace := trace s @ [GenerateContent (verify_prompt url)]\<rparr>)"
  using assms by (simp add: verifyImageWithGemini_def Let_def)

lemma verify_miss_calls_provider:
  assumes "\<not> truthy (getCache e (''verify_image_'' @ url) s)"
  shows "count_effects is_provider_call (trace (snd (verifyImageWithGemini e url s)))
           = count_effects is_provider_call (trace s) + 1"
  using assms
  by (simp add: verifyImageWithGemini_def Let_def setCache_def count_effects_def
      split: sdk_outcome.splits)

lemma verify_reports [simp]: "reports (snd (verifyImageWithGemini e url s)) = reports s"
  by (simp add: verifyImageWithGemini_def Let_def setCache_def split: sdk_outcome.splits)

text \<open>Rounding to 53 significant bits: the rounded product reaches a power of two exactly
  when the exact product is at least that power less the 54th part of it (a tie goes to the
  power of two, whose significand is even).\<close>

lemma pow2_cases:
  "(2::nat) ^ u \<le> 2 ^ 53 \<or> (2::nat) ^ u = 2 ^ 54 \<or> (2::nat) ^ u = 2 ^ 55 \<or> (2::nat) ^ 56 \<le> 2 ^ u"
proof -
  consider "u \<le> 53" | "u = 54" | "u = 55" | "56 \<le> u" by linarith
  then show ?thesis
  proof cases
    case 1
    then have "(2::nat) ^ u \<le> 2 ^ 53" by (rule power_increasing) simp
    then show ?thesis by blast
  next
    case 2 then show ?thesis by simp
  next
    case 3 then show ?thesis by simp
  next
    case 4
    then have "(2::nat) ^ 56 \<le> 2 ^ u" by (rule power_increasing) simp
    then show ?thesis by blast
  qed
qed

lemma rhe0: "round_half_even p 0 = p"
  by (simp add: round_half_even_def)

lemma rhe1:
  "round_half_even p 1 * 2 \<le> p + 1 \<and> p \<le> round_half_even p 1 * 2 + 1
   \<and> (even p \<longrightarrow> round_half_even p 1 * 2 = p)
   \<and> (odd p \<longrightarrow> 4 dvd round_half_even p 1 * 2)"
  unfolding round_half_even_def Let_def by (simp; presburger)

lemma rhe2:
  "round_half_even p 2 * 4 \<le> p + 2 \<and> p \<le> round_half_even p 2 * 4 + 2
   \<and> (4 dvd p \<longrightarrow> round_half_even p 2 * 4 = p)
   \<and> (p mod 4 = 1 \<longrightarrow> round_half_even p 2 * 4 + 1 = p)
   \<and> (p mod 4 = 3 \<longrightarrow> round_half_even p 2 * 4 = p + 1)
   \<and> (p mod 4 = 2 \<longrightarrow> 8 dvd round_half_even p 2 * 4)"
  unfolding round_half_even_def Let_def by (simp; presburger)

lemma round_53_ge_pow2:
  assumes "p < 3 * 2 ^ 53"
  shows "((2::nat) ^ u \<le> round_53 p) = (2 ^ 54 * 2 ^ u \<le> 2 ^ 54 * p + 2 ^ u)"
proof -
  define T :: nat where "T = 2 ^ u"
  have tc: "T \<le> 9007199254740992 \<or> T = 18014398509481984 \<or> T = 36028797018963968
           \<or> 72057594037927936 \<le> T"
    using pow2_cases [of u] unfolding T_def by simp
  have pos: "1 \<le> T" unfolding T_def by simp
  have p3: "p < 27021597764222976" using assms by simp
  consider (k0) "p < 9007199254740992"
    | (k1) "9007199254740992 \<le> p" "p < 18014398509481984"
    | (k2) "18014398509481984 \<le> p"
    by linarith
  then have "(T \<le> round_53 p) = (18014398509481984 * T \<le> 18014398509481984 * p + T)"
  proof cases
    case k0
    then have "round_53 p = p" by (simp add: round_53_def rhe0)
    with k0 tc pos show ?thesis by arith
  next
    case k1
    then have r: "round_53 p = round_half_even p 1 * 2" by (simp add: round_53_def)
    define S where "S = round_half_even p 1 * 2"
    have f: "S \<le> p + 1" "p \<le> S + 1" "even p \<longrightarrow> S = p" "odd p \<longrightarrow> 4 dvd S"
      using rhe1 [of p] unfolding S_def by blast+
    have "(T \<le> S) = (18014398509481984 * T \<le> 18014398509481984 * p + T)"
    proof -
      consider (lo) "T \<le> 9007199254740992" | (mid) "T = 18014398509481984"
        | (hi) "36028797018963968 \<le> T"
        using tc by linarith
      then show ?thesis
      proof cases
        case lo
        have "T \<le> S"
        proof (cases "T < p")
          case True
          with f(2) show ?thesis by linarith
        next
          case False
          with lo k1 have "p = 9007199254740992" by linarith
          then have "even p" by simp
          with f(3) have "S = p" by blast
          with lo k1 show ?thesis by linarith
        qed
        moreover from lo k1 have "18014398509481984 * T \<le> 18014398509481984 * p + T"
          by linarith
        ultimately show ?thesis by blast
      next
        case mid
        show ?thesis
        proof (cases "p = 18014398509481983")
          case True
          then have "odd p" by simp
          with f(4) obtain j where j: "S = 4 * j" by (auto simp: dvd_def)
          from True f(1,2) j have "j = 4503599627370496" by linarith
          with j mid True show ?thesis by simp
        next
          case False
          with k1 have "p \<le> 18014398509481982" by linarith
          with f(1) mid show ?thesis by linarith
        qed
      next
        case hi
        with k1 f(1) show ?thesis by linarith
      qed
    qed
    then show ?thesis unfolding r S_def .
  next
    case k2
    then have r: "round_53 p = round_half_even p 2 * 4" by (simp add: round_53_def)
    define S where "S = round_half_even p 2 * 4"
    have f: "S \<le> p + 2" "p \<le> S + 2" "4 dvd p \<longrightarrow> S = p" "p mod 4 = 1 \<longrightarrow> S + 1 = p"
      using rhe2 [of p] unfolding S_def by blast+
    have "(T \<le> S) = (18014398509481984 * T \<le> 18014398509481984 * p + T)"
    proof -
      consider (lo) "T \<le> 18014398509481984" | (hi) "36028797018963968 \<le> T"
        using tc by linarith
      then show ?thesis
      proof cases
        case lo
        have "T \<le> S"
        proof (cases "T + 2 \<le> p")
          case True
          with f(2) show ?thesis by linarith
        next
          case False
          with lo k2 consider "p = 18014398509481984" | "p = 18014398509481985" by linarith
          then have "S = 18014398509481984"
          proof cases
            case 1
            then have "4 dvd p" by simp
            with f(3) 1 show ?thesis by simp
          next
            case 2
            then have "p mod 4 = 1" by simp
            with f(4) 2 show ?thesis by simp
          qed
          with lo show ?thesis by linarith
        qed
        moreover from lo k2 have "18014398509481984 * T \<le> 18014398509481984 * p + T"
          by linarith
        ultimately show ?thesis by blast
      next
        case hi
        with p3 f(1) show ?thesis by linarith
      qed
    qed
    then show ?thesis unfolding r S_def .
  qed
  then show ?thesis unfolding T_def by simp
qed

lemma round_53_le: "round_53 p \<le> p + 2"
proof -
  consider (k0) "p < 2 ^ 53" | (k1) "\<not> p < 2 ^ 53" "p < 2 ^ 54" | (k2) "\<not> p < 2 ^ 53" "\<not> p < 2 ^ 54"
    by blast
  then show ?thesis
  proof cases
    case k0
    then show ?thesis by (simp add: round_53_def rhe0)
  next
    case k1
    with rhe1 [of p] show ?thesis by (simp add: round_53_def)
  next
    case k2
    with rhe2 [of p] show ?thesis by (simp add: round_53_def)
  qed
qed

lemma product_3_less:
  assumes "is_unit_double d"
  shows "product_3 d < 3 * 2 ^ nexp d"
proof -
  from assms have "mant d < 2 ^ nexp d" by (simp add: is_unit_double_def)
  then have "mant d * 3 + 3 \<le> 3 * 2 ^ nexp d" by simp
  with round_53_le [of "mant d * 3"] show ?thesis by (simp add: product_3_def)
qed

lemma mock_score_cases:
  assumes "is_unit_double d"
  shows "7 \<le> mock_score d" and "mock_score d \<le> 9"
    and "(8 \<le> mock_score d) = (2 ^ 54 * 2 ^ nexp d \<le> 2 ^ 54 * (mant d * 3) + 2 ^ nexp d)"
    and "(9 \<le> mock_score d)
           = (2 ^ 54 * 2 ^ Suc (nexp d) \<le> 2 ^ 54 * (mant d * 3) + 2 ^ Suc (nexp d))"
proof -
  from assms have p: "mant d * 3 < 3 * 2 ^ 53" by (simp add: is_unit_double_def)
  have pos: "(0::nat) < 2 ^ nexp d" by simp
  show "7 \<le> mock_score d" by (simp add: mock_score_def)
  from product_3_less [OF assms] have "product_3 d div 2 ^ nexp d < 3"
    by (simp add: div_less_iff_less_mult)
  then show "mock_score d \<le> 9" by (simp add: mock_score_def)
  have "(8 \<le> mock_score d) = (1 \<le> product_3 d div 2 ^ nexp d)"
    by (simp add: mock_score_def; linarith?)
  also have "\<dots> = (2 ^ nexp d \<le> product_3 d)"
    using less_eq_div_iff_mult_less_eq [OF pos, of 1 "product_3 d"] by simp
  also have "\<dots> = (2 ^ 54 * 2 ^ nexp d \<le> 2 ^ 54 * (mant d * 3) + 2 ^ nexp d)"
    unfolding product_3_def by (rule round_53_ge_pow2 [OF p])
  finally show "(8 \<le> mock_score d) = (2 ^ 54 * 2 ^ nexp d \<le> 2 ^ 54 * (mant d * 3) + 2 ^ nexp d)" .
  have "(9 \<le> mock_score d) = (2 \<le> product_3 d div 2 ^ nexp d)"
    by (simp add: mock_score_def; linarith?)
  also have "\<dots> = (2 ^ Suc (nexp d) \<le> product_3 d)"
    using less_eq_div_iff_mult_less_eq [OF pos, of 2 "product_3 d"] by simp
  also have "\<dots> = (2 ^ 54 * 2 ^ Suc (nexp d) \<le> 2 ^ 54 * (mant d * 3) + 2 ^ Suc (nexp d))"
    unfolding product_3_def by (rule round_53_ge_pow2 [OF p])
  finally show "(9 \<le> mock_score d)
           = (2 ^ 54 * 2 ^ Suc (nexp d) \<le> 2 ^ 54 * (mant d * 3) + 2 ^ Suc (nexp d))" .
qed

lemma threshold_1:
  "(1 - 1 / 2 ^ 54 \<le> 3 * double_val d)
     = ((2::nat) ^ 54 * 2 ^ nexp d \<le> 2 ^ 54 * (mant d * 3) + 2 ^ nexp d)"
proof -
  have "(1 - 1 / 2 ^ 54 \<le> 3 * double_val d)
      = (real (2 ^ 54 * 2 ^ nexp d) \<le> real (2 ^ 54 * (mant d * 3) + 2 ^ nexp d))"
    by (simp add: double_val_def field_simps)
  then show ?thesis by (simp only: of_nat_le_iff)
qed

lemma threshold_2:
  "(2 - 1 / 2 ^ 53 \<le> 3 * double_val d)
     = ((2::nat) ^ 54 * 2 ^ Suc (nexp d) \<le> 2 ^ 54 * (mant d * 3) + 2 ^ Suc (nexp d))"
proof -
  have "(2 - 1 / 2 ^ 53 \<le> 3 * double_val d)
      = (real (2 ^ 54 * 2 ^ Suc (nexp d)) \<le> real (2 ^ 54 * (mant d * 3) + 2 ^ Suc (nexp d)))"
    by (simp add: double_val_def field_simps)
  then show ?thesis by (simp only: of_nat_le_iff)
qed

lemma mock_score_thresholds:
  assumes "is_unit_double d"
  shows "7 \<le> mock_score d \<and> mock_score d \<le> 9
     \<and> (mock_score d = 7 \<longleftrightarrow> 3 * double_val d < 1 - 1 / 2 ^ 54)
     \<and> (mock_score d = 8 \<longleftrightarrow> 1 - 1 / 2 ^ 54 \<le> 3 * double_val d \<and> 3 * double_val d < 2 - 1 / 2 ^ 53)
     \<and> (mock_score d = 9 \<longleftrightarrow> 2 - 1 / 2 ^ 53 \<le> 3 * double_val d)"
proof -
  note c = mock_score_cases [OF assms]
  have a: "(8 \<le> mock_score d) = (1 - 1 / 2 ^ 54 \<le> 3 * double_val d)"
    using c(3) threshold_1 [of d] by blast
  have b: "(9 \<le> mock_score d) = (2 - 1 / 2 ^ 53 \<le> 3 * double_val d)"
    using c(4) threshold_2 [of d] by blast
  from c(1,2) a b show ?thesis by (auto simp: not_le [symmetric])
qed

text \<open>
  Claim C1, as amended. For every image URL: when the cache gives nothing and the call to
  the vision provider throws, \<open>verifyImageWithGemini\<close> returns the fixed degraded
  result (score 5, reasoning \<^verbatim>\<open>Unable to verify\<close>, status \<^verbatim>\<open>pending\<close>); the \<^verbatim>\<open>catch\<close>
  branch returns without calling \<open>setCache\<close>, so the cache table is unchanged and no
  upsert happens, and a repeated call for the same URL that again finds nothing in the
  cache invokes the provider again.
\<close>

theorem degraded_result_not_cached:
  assumes "\<not> truthy (getCache e (''verify_image_'' @ url) s)"
    and "generateContent e (verify_prompt url) = SdkRaises"
  shows "fst (verifyImageWithGemini e url s) = degraded
     \<and> cache (snd (verifyImageWithGemini e url s)) = cache s
     \<and> count_effects is_cache_write (trace (snd (verifyImageWithGemini e url s)))
         = count_effects is_cache_write (trace s)
     \<and> (\<forall>e2. \<not> truthy (getCache e2 (''verify_image_'' @ url) s) \<longrightarrow>
           count_effects is_provider_call
             (trace (snd (verifyImageWithGemini e2 url (snd (verifyImageWithGemini e url s)))))
           = count_effects is_provider_call (trace s) + 2)"
proof -
  let ?s1 = "s\<lparr>trace := trace s @ [GenerateContent (verify_prompt url)]\<rparr>"
  have r: "verifyImageWithGemini e url s = (degraded, ?s1)"
    using assms by (rule verify_fail_result)
  have c: "count_effects is_provider_call (trace ?s1) = count_effects is_provider_call (trace s) + 1"
    by (simp add: count_effects_def)
  have "count_effects is_provider_call (trace (snd (verifyImageWithGemini e2 url ?s1)))
           = count_effects is_provider_call (trace s) + 2"
    if "\<not> truthy (getCache e2 (''verify_image_'' @ url) s)" for e2
  proof -
    from that have "\<not> truthy (getCache e2 (''verify_image_'' @ url) ?s1)" by simp
    from verify_miss_calls_provider [OF this] c show ?thesis by simp
  qed
  with r show ?thesis by (simp add: count_effects_def)
qed

theorem degraded_result_not_cached_witness:
  "\<not> truthy (getCache failing_env (''verify_image_'' @ sample_url) sample_world)
   \<and> generateContent failing_env (verify_prompt sample_url) = SdkRaises
   \<and> \<not> truthy (getCache later_env (''verify_image_'' @ sample_url) sample_world)
   \<and> fst (verifyImageWithGemini failing_env sample_url sample_world) = degraded
   \<and> cache (snd (verifyImageWithGemini failing_env sample_url sample_world)) = cache sample_world
   \<and> count_effects is_provider_call
       (trace (snd (verifyImageWithGemini later_env sample_url
                      (snd (verifyImageWithGemini failing_env sample_url sample_world)))))
       = count_effects is_provider_call (trace sample_world) + 2"
proof -
  have m1: "\<not> truthy (getCache failing_env (''verify_image_'' @ sample_url) sample_world)"
    by (simp add: getCache_def sample_world_def)
  have m2: "\<not> truthy (getCache later_env (''verify_image_'' @ sample_url) sample_world)"
    by (simp add: getCache_def sample_world_def)
  have f: "generateContent failing_env (verify_prompt sample_url) = SdkRaises"
    by (simp add: failing_env_def)
  from m1 m2 f degraded_result_not_cached [OF m1 f] show ?thesis by blast
qed

text \<open>
  Claim C1 as stated fails: on the empty cache a failed verification at time 0 leaves no
  row under the URL's key, and a call one minute later, well within the 60 minutes of the
  TTL, invokes the provider a second time and returns its result, not the degraded one.
\<close>

theorem degraded_result_cached_counterexample:
  "fst (verifyImageWithGemini failing_env sample_url sample_world) = degraded
   \<and> cache after_failure (''verify_image_'' @ sample_url) = None
   \<and> now later_env < now failing_env + default_ttl * 60 * 1000
   \<and> fst (verifyImageWithGemini later_env sample_url after_failure) \<noteq> degraded
   \<and> trace (snd (verifyImageWithGemini later_env sample_url after_failure))
       = [GenerateContent (verify_prompt sample_url),
          GenerateContent (verify_prompt sample_url),
          CacheUpsert (''verify_image_'' @ sample_url)
            (fst (verifyImageWithGemini later_env sample_url after_failure)) (Some 3660000)]"
  by (simp add: after_failure_def verifyImageWithGemini_def getCache_def setCache_def Let_def
      new_Date_def failing_env_def later_env_def sample_env_def sample_world_def degraded_def
      default_ttl_def)

text \<open>
  Claim C2. For every image URL on which the provider call succeeds (the cache gave
  nothing): the score of the result is not taken from the text the provider returned; it is
  \<open>mock_score\<close> of the draw of \<^verbatim>\<open>Math.random()\<close>, an integer between 7 and 10 that the draw
  alone decides: 7 when three times the draw is below \<open>1 - 2^-54\<close>, 9 when it is at least
  \<open>2 - 2^-53\<close>, and 8 between the two (10 is never reached). The reasoning is the text of
  the provider, trimmed.
\<close>

theorem verified_score_is_mock:
  assumes "\<not> truthy (getCache e (''verify_image_'' @ url) s)"
    and "generateContent e (verify_prompt url) = SdkText t"
    and "is_unit_double (math_random e)"
  shows "fst (verifyImageWithGemini e url s)
           = JObj [(''score'', JNum (Num (of_int (mock_score (math_random e))))),
                   (''reasoning'', JStr (trim t)),
                   (''status'', JStr ''verified'')]
     \<and> 7 \<le> mock_score (math_random e) \<and> mock_score (math_random e) \<le> 10
     \<and> (mock_score (math_random e) = 7
          \<longleftrightarrow> 3 * double_val (math_random e) < 1 - 1 / 2 ^ 54)
     \<and> (mock_score (math_random e) = 8
          \<longleftrightarrow> 1 - 1 / 2 ^ 54 \<le> 3 * double_val (math_random e)
              \<and> 3 * double_val (math_random e) < 2 - 1 / 2 ^ 53)
     \<and> (mock_score (math_random e) = 9
          \<longleftrightarrow> 2 - 1 / 2 ^ 53 \<le> 3 * double_val (math_random e))
     \<and> get_field (fst (verifyImageWithGemini (e\<lparr>generateContent := (\<lambda>p. SdkText t')\<rparr>) url s))
           ''score''
         = get_field (fst (verifyImageWithGemini e url s)) ''score''"
proof -
  note th = mock_score_thresholds [OF assms(3)]
  have miss': "\<not> truthy (getCache (e\<lparr>generateContent := (\<lambda>p. SdkText t')\<rparr>)
                  (''verify_image_'' @ url) s)"
    using assms(1) by (simp add: getCache_now [of "e\<lparr>generateContent := (\<lambda>p. SdkText t')\<rparr>" e])
  have r: "fst (verifyImageWithGemini e url s)
           = JObj [(''score'', JNum (Num (of_int (mock_score (math_random e))))),
                   (''reasoning'', JStr (trim t)),
                   (''status'', JStr ''verified'')]"
    using assms(1,2) by (simp add: verifyImageWithGemini_def Let_def)
  have i: "get_field (fst (verifyImageWithGemini (e\<lparr>generateContent := (\<lambda>p. SdkText t')\<rparr>) url s))
           ''score''
         = get_field (fst (verifyImageWithGemini e url s)) ''score''"
    using assms(1,2) miss' by (simp add: verifyImageWithGemini_def Let_def)
  from th have "mock_score (math_random e) \<le> 10" by linarith
  with th r i show ?thesis by blast
qed

theorem verified_score_is_mock_witness:
  "\<not> truthy (getCache sample_env (''verify_image_'' @ sample_url) sample_world)
   \<and> generateContent sample_env (verify_prompt sample_url) = SdkText ''Score 3: looks edited ''
   \<and> is_unit_double (math_random sample_env)
   \<and> fst (verifyImageWithGemini sample_env sample_url sample_world)
       = JObj [(''score'', JNum (Num 8)), (''reasoning'', JStr ''Score 3: looks edited''),
               (''status'', JStr ''verified'')]
   \<and> \<not> truthy (getCache two_thirds_env (''verify_image_'' @ sample_url) sample_world)
   \<and> generateContent two_thirds_env (verify_prompt sample_url)
       = SdkText ''Score 3: looks edited ''
   \<and> is_unit_double (math_random two_thirds_env)
   \<and> 3 * double_val (math_random two_thirds_env) < 2
   \<and> fst (verifyImageWithGemini two_thirds_env sample_url sample_world)
       = JObj [(''score'', JNum (Num 9)), (''reasoning'', JStr ''Score 3: looks edited''),
               (''status'', JStr ''verified'')]
   \<and> \<not> truthy (getCache one_third_env (''verify_image_'' @ sample_url) sample_world)
   \<and> generateContent one_third_env (verify_prompt sample_url)
       = SdkText ''Score 3: looks edited ''
   \<and> is_unit_double (math_random one_third_env)
   \<and> 3 * double_val (math_random one_third_env) < 1
   \<and> fst (verifyImageWithGemini one_third_env sample_url sample_world)
       = JObj [(''score'', JNum (Num 8)), (''reasoning'', JStr ''Score 3: looks edited''),
               (''status'', JStr ''verified'')]"
proof -
  have m: "\<not> truthy (getCache sample_env (''verify_image_'' @ sample_url) sample_world)"
    by (simp add: getCache_def sample_world_def)
  have g: "generateContent sample_env (verify_prompt sample_url) = SdkText ''Score 3: looks edited ''"
    by (simp add: sample_env_def)
  have d: "is_unit_double (math_random sample_env)"
    by (simp add: sample_env_def is_unit_double_def)
  have sc: "mock_score (math_random sample_env) = 8"
    by (simp add: sample_env_def mock_score_def product_3_def round_53_def round_half_even_def)
  have m2: "\<not> truthy (getCache two_thirds_env (''verify_image_'' @ sample_url) sample_world)"
    by (simp add: getCache_def sample_world_def)
  have g2: "generateContent two_thirds_env (verify_prompt sample_url)
       = SdkText ''Score 3: looks edited ''"
    by (simp add: two_thirds_env_def sample_env_def)
  have d2: "is_unit_double (math_random two_thirds_env)"
    by (simp add: two_thirds_env_def two_thirds_def is_unit_double_def)
  have v2: "3 * double_val (math_random two_thirds_env) < 2"
    by (simp add: two_thirds_env_def two_thirds_def double_val_def)
  have sc2: "mock_score (math_random two_thirds_env) = 9"
    by (simp add: two_thirds_env_def two_thirds_def mock_score_def product_3_def round_53_def
        round_half_even_def)
  have tr: "trim ''Score 3: looks edited '' = ''Score 3: looks edited''"
    by (simp add: trim_def is_space_def)
  have n8: "real_of_int 8 = 8" and n9: "real_of_int 9 = 9" by simp_all
  note a = verified_score_is_mock [OF m g d, unfolded sc tr n8]
  note b = verified_score_is_mock [OF m2 g2 d2, unfolded sc2 tr n9]
  have m3: "\<not> truthy (getCache one_third_env (''verify_image_'' @ sample_url) sample_world)"
    by (simp add: getCache_def sample_world_def)
  have g3: "generateContent one_third_env (verify_prompt sample_url)
       = SdkText ''Score 3: looks edited ''"
    by (simp add: one_third_env_def sample_env_def)
  have d3: "is_unit_double (math_random one_third_env)"
    by (simp add: one_third_env_def one_third_def is_unit_double_def)
  have v3: "3 * double_val (math_random one_third_env) < 1"
    by (simp add: one_third_env_def one_third_def double_val_def)
  have sc3: "mock_score (math_random one_third_env) = 8"
    by (simp add: one_third_env_def one_third_def mock_score_def product_3_def round_53_def
        round_half_even_def)
  note c = verified_score_is_mock [OF m3 g3 d3, unfolded sc3 tr n8]
  from m g d m2 g2 d2 v2 a b m3 g3 d3 v3 c show ?thesis by blast
qed

lemma verify_image_reports:
  "reports (snd (post_verify_image e did url s))
     = update_verification_status (get_field (fst (verifyImageWithGemini e url s)) ''status'')
         url (reports s)"
  by (simp add: post_verify_image_def split: prod.splits)
     (metis fst_conv snd_conv verify_reports)

lemma verified_world_statuses:
  "map verification_status (reports verified_world)
      = [JStr ''verified'', JStr ''verified'', JStr ''pending'', JStr ''pending'']"
  by (simp add: verified_world_def post_verify_image_def verifyImageWithGemini_def
      getCache_def setCache_def Let_def sample_env_def sample_world_def sample_report_def
      sample_url_def update_verification_status_def)

text \<open>
  Claim C7. For every image URL: once \<open>verifyImageWithGemini\<close> has given a result with a
  \<^verbatim>\<open>status\<close>, the handler of \<^verbatim>\<open>POST /disasters/:id/verify-image\<close> sets
  \<^verbatim>\<open>verification_status\<close> to that status on every report whose \<^verbatim>\<open>image_url\<close> equals the
  URL and leaves every other report as it was. The update is keyed on \<^verbatim>\<open>image_url\<close>
  alone: the incident of a report plays no part, and the incident id of the request does
  not change what the handler does.
\<close>

theorem status_written_to_every_matching_report:
  assumes "get_field (fst (verifyImageWithGemini e url s)) ''status'' = Some st"
  shows "reports (snd (post_verify_image e did url s))
           = map (\<lambda>r. if image_url r = Some url then r\<lparr>verification_status := st\<rparr> else r)
               (reports s)
     \<and> (\<forall>r \<in> set (reports (snd (post_verify_image e did url s))).
           image_url r = Some url \<longrightarrow> verification_status r = st)
     \<and> post_verify_image e did' url s = post_verify_image e did url s"
proof -
  have "reports (snd (post_verify_image e did url s))
           = map (\<lambda>r. if image_url r = Some url then r\<lparr>verification_status := st\<rparr> else r)
               (reports s)"
    using assms by (simp add: verify_image_reports update_verification_status_def)
  moreover have "post_verify_image e did' url s = post_verify_image e did url s"
    by (simp add: post_verify_image_def)
  ultimately show ?thesis by auto
qed

theorem status_written_to_every_matching_report_witness:
  "get_field (fst (verifyImageWithGemini sample_env sample_url sample_world)) ''status''
     = Some (JStr ''verified'')
   \<and> map (\<lambda>r. (report_id r, report_disaster_id r, verification_status r))
        (reports (snd (post_verify_image sample_env ''d1'' sample_url sample_world)))
       = [(1, ''d1'', JStr ''verified''), (2, ''d2'', JStr ''verified''),
          (3, ''d1'', JStr ''pending''), (4, ''d1'', JStr ''pending'')]"
proof -
  have st: "get_field (fst (verifyImageWithGemini sample_env sample_url sample_world)) ''status''
     = Some (JStr ''verified'')"
    by (simp add: verifyImageWithGemini_def getCache_def Let_def sample_env_def sample_world_def)
  note th = status_written_to_every_matching_report [OF st, of "''d1''"]
  from th have "reports (snd (post_verify_image sample_env ''d1'' sample_url sample_world))
      = map (\<lambda>r. if image_url r = Some sample_url then r\<lparr>verification_status := JStr ''verified''\<rparr> else r)
               (reports sample_world)" by blast
  then have "map (\<lambda>r. (report_id r, report_disaster_id r, verification_status r))
        (reports (snd (post_verify_image sample_env ''d1'' sample_url sample_world)))
       = [(1, ''d1'', JStr ''verified''), (2, ''d2'', JStr ''verified''),
          (3, ''d1'', JStr ''pending''), (4, ''d1'', JStr ''pending'')]"
    by (simp add: sample_world_def sample_report_def sample_url_def)
  with st show ?thesis by blast
qed

text \<open>
  Claim C10. When the cache gives nothing and the provider call throws, the handler of
  \<^verbatim>\<open>verify-image\<close> answers with the degraded result and writes its status \<^verbatim>\<open>pending\<close> to
  every report whose \<^verbatim>\<open>image_url\<close> matches; a report that was \<^verbatim>\<open>verified\<close> is \<^verbatim>\<open>pending\<close>
  afterwards, so the status is not monotone away from \<^verbatim>\<open>pending\<close>.
\<close>

theorem failed_verification_sets_pending:
  assumes "\<not> truthy (getCache e (''verify_image_'' @ url) s)"
    and "generateContent e (verify_prompt url) = SdkRaises"
  shows "fst (post_verify_image e did url s) = Json degraded
     \<and> reports (snd (post_verify_image e did url s))
         = map (\<lambda>r. if image_url r = Some url then r\<lparr>verification_status := JStr ''pending''\<rparr>
                     else r) (reports s)
     \<and> (\<forall>r \<in> set (reports s).
           image_url r = Some url \<and> verification_status r = JStr ''verified'' \<longrightarrow>
           r\<lparr>verification_status := JStr ''pending''\<rparr>
             \<in> set (reports (snd (post_verify_image e did url s))))"
proof -
  from assms have r: "verifyImageWithGemini e url s
           = (degraded, s\<lparr>trace := trace s @ [GenerateContent (verify_prompt url)]\<rparr>)"
    by (rule verify_fail_result)
  then have a: "fst (post_verify_image e did url s) = Json degraded"
    by (simp add: post_verify_image_def)
  from r have b: "reports (snd (post_verify_image e did url s))
         = map (\<lambda>r. if image_url r = Some url then r\<lparr>verification_status := JStr ''pending''\<rparr>
                     else r) (reports s)"
    by (simp add: verify_image_reports update_verification_status_def degraded_def)
  from a b show ?thesis by auto
qed

theorem failed_verification_sets_pending_witness:
  "map verification_status (reports verified_world)
      = [JStr ''verified'', JStr ''verified'', JStr ''pending'', JStr ''pending'']
   \<and> \<not> truthy (getCache expired_env (''verify_image_'' @ sample_url) verified_world)
   \<and> generateContent expired_env (verify_prompt sample_url) = SdkRaises
   \<and> map verification_status
        (reports (snd (post_verify_image expired_env ''d2'' sample_url verified_world)))
      = [JStr ''pending'', JStr ''pending'', JStr ''pending'', JStr ''pending'']"
proof -
  have m: "\<not> truthy (getCache expired_env (''verify_image_'' @ sample_url) verified_world)"
    by (simp add: verified_world_def post_verify_image_def verifyImageWithGemini_def
      getCache_def setCache_def Let_def sample_env_def sample_world_def expired_env_def
      failing_env_def default_ttl_def new_Date_def date_of_column_def)
  have f: "generateContent expired_env (verify_prompt sample_url) = SdkRaises"
    by (simp add: expired_env_def failing_env_def)
  from failed_verification_sets_pending [OF m f, of "''d2''"]
  have "reports (snd (post_verify_image expired_env ''d2'' sample_url verified_world))
         = map (\<lambda>r. if image_url r = Some sample_url
                     then r\<lparr>verification_status := JStr ''pending''\<rparr> else r)
             (reports verified_world)"
    by blast
  then have "map verification_status
        (reports (snd (post_verify_image expired_env ''d2'' sample_url verified_world)))
      = map (\<lambda>r. if image_url r = Some sample_url then JStr ''pending''
                  else verification_status r) (reports verified_world)"
    by (simp add: o_def if_distrib cong: if_cong)
  also have "\<dots> = [JStr ''pending'', JStr ''pending'', JStr ''pending'', JStr ''pending'']"
    by (simp add: verified_world_def post_verify_image_def verifyImageWithGemini_def
      getCache_def setCache_def Let_def sample_env_def sample_world_def sample_report_def
      sample_url_def update_verification_status_def)
  finally show ?thesis using verified_world_statuses m f by blast
qed

section \<open>Resource Locator\<close>

text \<open>
  Claim C6. For every incident id and supplied coordinates: if the proximity query
  \<^verbatim>\<open>get_nearby_resources\<close> fails, the handler of \<^verbatim>\<open>GET /disasters/:id/resources\<close> answers
  exactly as it does when no coordinates are supplied, and the failure of the proximity
  query is not surfaced: whenever the plain filter of the resources by incident id can be
  read, the answer is that list. (An error is answered only when the plain query itself
  fails, with or without coordinates.)
\<close>

theorem proximity_failure_falls_back:
  assumes "user_lat \<noteq> []" and "user_lng \<noteq> []"
    and "get_nearby_resources e did (parseFloat e user_lat) (parseFloat e user_lng)
           (radius_meters e radius) = Inl err"
  shows "get_resources e did (Some user_lat) (Some user_lng) radius s
           = get_resources e did None None None s
     \<and> (resources_select_error e = None \<longrightarrow>
           get_resources e did (Some user_lat) (Some user_lng) radius s
             = Json (filter (\<lambda>r. resource_disaster_id r = did) (resources s)))"
  using assms
  by (simp add: get_resources_def plain_mode_def resources_query_def split: option.splits)

theorem proximity_failure_falls_back_witness:
  "''40.7831'' \<noteq> [] \<and> ''-73.9712'' \<noteq> []
   \<and> get_nearby_resources failing_env ''d1'' (parseFloat failing_env ''40.7831'')
        (parseFloat failing_env ''-73.9712'') (radius_meters failing_env None)
       = Inl ''function not found''
   \<and> resources_select_error failing_env = None
   \<and> get_resources failing_env ''d1'' (Some ''40.7831'') (Some ''-73.9712'') None sample_world
       = get_resources failing_env ''d1'' None None None sample_world
   \<and> get_resources failing_env ''d1'' (Some ''40.7831'') (Some ''-73.9712'') None sample_world
       = Json [\<lparr>resource_id = 1, resource_disaster_id = ''d1'', resource_name = ''Shelter''\<rparr>]"
proof -
  have a: "''40.7831'' \<noteq> []" and b: "''-73.9712'' \<noteq> []" by simp_all
  have c: "get_nearby_resources failing_env ''d1'' (parseFloat failing_env ''40.7831'')
        (parseFloat failing_env ''-73.9712'') (radius_meters failing_env None)
       = Inl ''function not found''"
    by (simp add: failing_env_def)
  have d: "resources_select_error failing_env = None"
    by (simp add: failing_env_def sample_env_def)
  have f: "filter (\<lambda>r. resource_disaster_id r = ''d1'') (resources sample_world)
       = [\<lparr>resource_id = 1, resource_disaster_id = ''d1'', resource_name = ''Shelter''\<rparr>]"
    by (simp add: sample_world_def)
  note th = proximity_failure_falls_back [OF a b c, of sample_world, unfolded f]
  from a b c d th show ?thesis by blast
qed

section \<open>Realtime Fan-out\<close>

lemma geocode_emits:
  "count_effects is_emit (trace (snd (geocodeLocation e p s))) = count_effects is_emit (trace s)"
  by (simp add: geocodeLocation_def Let_def setCache_def count_effects_def
      split: nominatim_outcome.splits list.splits)

lemma locate_emits:
  "count_effects is_emit (trace (snd (locate e body s))) = count_effects is_emit (trace s)"
proof (cases "body_location_name body")
  case None
  then show ?thesis by (simp add: locate_def)
next
  case (Some name)
  show ?thesis
  proof (cases "geocodeLocation e name s")
    case (Pair coords s1)
    with geocode_emits [of e name s]
    have "count_effects is_emit (trace s1) = count_effects is_emit (trace s)" by simp
    with Some Pair show ?thesis by (simp add: locate_def)
  qed
qed

text \<open>
  Claim C8. For every request to create an incident: if the insert into \<^verbatim>\<open>disasters\<close>
  succeeds, the handler emits exactly one event, \<^verbatim>\<open>disaster_updated\<close> with action
  \<^verbatim>\<open>create\<close> and the row the collaborator returned, and it emits it after the insert (the
  two are the last effects of the request, in this order); if the insert fails, the handler
  answers 500 and emits nothing.
\<close>

theorem create_broadcasts_once_after_write:
  "(disasters_insert e (insert_row e body (fst (locate e body s))) = Inr data \<longrightarrow>
      fst (post_disasters e body s) = Json data
      \<and> trace (snd (post_disasters e body s))
          = trace (snd (locate e body s))
            @ [DisastersInsert (insert_row e body (fst (locate e body s))),
               Emit (Event ''disaster_updated'' ''create'' data)]
      \<and> count_effects is_emit (trace (snd (post_disasters e body s)))
          = count_effects is_emit (trace s) + 1)
   \<and> (disasters_insert e (insert_row e body (fst (locate e body s))) = Inl err \<longrightarrow>
      fst (post_disasters e body s) = Error 500 ''Failed to create disaster''
      \<and> trace (snd (post_disasters e body s))
          = trace (snd (locate e body s))
            @ [DisastersInsert (insert_row e body (fst (locate e body s)))]
      \<and> count_effects is_emit (trace (snd (post_disasters e body s)))
          = count_effects is_emit (trace s))"
proof -
  have c: "count_effects is_emit (trace (snd (locate e body s))) = count_effects is_emit (trace s)"
    by (rule locate_emits)
  obtain loc s1 where l: "locate e body s = (loc, s1)" by (cases "locate e body s")
  from c l have c': "count_effects is_emit (trace s1) = count_effects is_emit (trace s)" by simp
  show ?thesis
    using c' by (simp add: post_disasters_def l Let_def count_effects_def)
qed

theorem create_broadcasts_once_after_write_witness:
  "disasters_insert sample_env
       (insert_row sample_env sample_body (fst (locate sample_env sample_body sample_world)))
     = Inr (insert_row sample_env sample_body (fst (locate sample_env sample_body sample_world)))
   \<and> count_effects is_emit (trace sample_world) = 0
   \<and> count_effects is_emit (trace (snd (post_disasters sample_env sample_body sample_world)))
       = count_effects is_emit (trace sample_world) + 1
   \<and> disasters_insert failing_env
       (insert_row failing_env sample_body (fst (locate failing_env sample_body sample_world)))
     = Inl ''insert failed''
   \<and> fst (post_disasters failing_env sample_body sample_world)
       = Error 500 ''Failed to create disaster''
   \<and> count_effects is_emit (trace (snd (post_disasters failing_env sample_body sample_world)))
       = count_effects is_emit (trace sample_world)"
proof -
  have ok: "disasters_insert sample_env
       (insert_row sample_env sample_body (fst (locate sample_env sample_body sample_world)))
     = Inr (insert_row sample_env sample_body (fst (locate sample_env sample_body sample_world)))"
    by (simp add: sample_env_def)
  have bad: "disasters_insert failing_env
       (insert_row failing_env sample_body (fst (locate failing_env sample_body sample_world)))
     = Inl ''insert failed''"
    by (simp add: failing_env_def)
  have z: "count_effects is_emit (trace sample_world) = 0"
    by (simp add: count_effects_def sample_world_def)
  note a = create_broadcasts_once_after_write [of sample_env sample_body sample_world
      "insert_row sample_env sample_body (fst (locate sample_env sample_body sample_world))"
      "''insert failed''"]
  note b = create_broadcasts_once_after_write [of failing_env sample_body sample_world
      "insert_row sample_env sample_body (fst (locate sample_env sample_body sample_world))"
      "''insert failed''"]
  from ok bad z a b show ?thesis by blast
qed

end
